theory Spec2Isabelle
  imports Complex_Main
begin

section \<open>Data model of AI\_Wargame\_D1.py\<close>

text \<open>
  Python integers are unbounded, so rows, columns, health points and depths are \<open>int\<close>.
  Python floats (elapsed seconds, the scores of the evaluators e1 and e2) are idealised as
  \<open>real\<close>; every divisor in the source is an integer, so whether a division raises
  ZeroDivisionError does not depend on rounding.
\<close>

datatype UnitType = AI | Tech | Virus | Program | Firewall

datatype Player = Attacker | Defender

datatype GameType = AttackerVsDefender | AttackerVsComp | CompVsDefender | CompVsComp

datatype error = ZeroDivisionError | IndexError | TypeError | AttributeError | RecursionError

fun type_value :: "UnitType \<Rightarrow> nat" where
  "type_value AI = 0"
| "type_value Tech = 1"
| "type_value Virus = 2"
| "type_value Program = 3"
| "type_value Firewall = 4"

fun player_next :: "Player \<Rightarrow> Player" where
  "player_next Attacker = Defender"
| "player_next Defender = Attacker"

record Unit =
  player :: Player
  unit_type :: UnitType
  health :: int

definition MAX_HEURISTIC_SCORE :: int where
  "MAX_HEURISTIC_SCORE = 2000000000"

definition MIN_HEURISTIC_SCORE :: int where
  "MIN_HEURISTIC_SCORE = - 2000000000"

definition damage_table :: "int list list" where
  "damage_table =
    [[3,3,3,3,1],
     [1,1,6,1,1],
     [9,6,1,6,1],
     [3,3,3,3,1],
     [1,1,1,1,1]]"

definition repair_table :: "int list list" where
  "repair_table =
    [[0,1,1,0,0],
     [3,0,0,3,3],
     [0,0,0,0,0],
     [0,0,0,0,0],
     [0,0,0,0,0]]"

definition is_alive :: "Unit \<Rightarrow> bool" where
  "is_alive u = (health u > 0)"

text \<open>\<open>Unit.mod_health\<close>: add the delta, then clamp into 0..9.\<close>

definition unit_mod_health :: "Unit \<Rightarrow> int \<Rightarrow> Unit" where
  "unit_mod_health u health_delta =
    (let h = health u + health_delta
     in if h < 0 then u\<lparr>health := 0\<rparr>
        else if h > 9 then u\<lparr>health := 9\<rparr>
        else u\<lparr>health := h\<rparr>)"

definition damage_amount :: "Unit \<Rightarrow> Unit \<Rightarrow> int" where
  "damage_amount u target =
    (let amount = damage_table ! type_value (unit_type u) ! type_value (unit_type target)
     in if health target - amount < 0 then health target else amount)"

definition repair_amount :: "Unit \<Rightarrow> Unit \<Rightarrow> int" where
  "repair_amount u target =
    (let amount = repair_table ! type_value (unit_type u) ! type_value (unit_type target)
     in if health target + amount > 9 then 9 - health target else amount)"

record Coord =
  row :: int
  col :: int

definition mk_coord :: "int \<Rightarrow> int \<Rightarrow> Coord" where
  "mk_coord r c = \<lparr>row = r, col = c\<rparr>"

text \<open>\<open>Coord.iter_range\<close>: the square of radius \<open>d\<close>, row by row
  (Python's \<open>range(a, b + 1)\<close> is the interval from \<open>a\<close> to \<open>b\<close>).\<close>

definition iter_range :: "Coord \<Rightarrow> int \<Rightarrow> Coord list" where
  "iter_range c d =
    concat (map (\<lambda>r. map (\<lambda>k. mk_coord r k) [col c - d .. col c + d])
                [row c - d .. row c + d])"

text \<open>\<open>Coord.iter_adjacent\<close>: up, left, down, right, in this order.\<close>

definition iter_adjacent :: "Coord \<Rightarrow> Coord list" where
  "iter_adjacent c =
    [mk_coord (row c - 1) (col c), mk_coord (row c) (col c - 1),
     mk_coord (row c + 1) (col c), mk_coord (row c) (col c + 1)]"

record CoordPair =
  src :: Coord
  dst :: Coord

definition mk_move :: "Coord \<Rightarrow> Coord \<Rightarrow> CoordPair" where
  "mk_move s d = \<lparr>src = s, dst = d\<rparr>"

definition from_dim :: "int \<Rightarrow> CoordPair" where
  "from_dim d = mk_move (mk_coord 0 0) (mk_coord (d - 1) (d - 1))"

definition iter_rectangle :: "CoordPair \<Rightarrow> Coord list" where
  "iter_rectangle p =
    concat (map (\<lambda>r. map (\<lambda>k. mk_coord r k) [col (src p) .. col (dst p)])
                [row (src p) .. row (dst p)])"

record Options =
  dim :: int
  max_depth :: "int option"
  min_depth :: "int option"
  max_time :: "real option"
  game_type :: GameType
  alpha_beta :: bool
  max_turns :: "int option"
  randomize_moves :: bool
  broker :: "string option"
  heuristic :: "int option"

text \<open>
  The \<open>Stats\<close> object is shared by reference between a game and all its clones, so it is
  not a field of the game value below: the search threads it explicitly.
\<close>

record Stats =
  evaluations_per_depth :: "(int \<times> int) list"
  total_seconds :: real

record Game =
  board :: "Unit option list list"
  next_player :: Player
  turns_played :: int
  options :: Options
  attacker_has_ai :: bool
  defender_has_ai :: bool

section \<open>Board access\<close>

definition is_valid_coord :: "Game \<Rightarrow> Coord \<Rightarrow> bool" where
  "is_valid_coord g c =
    (if row c < 0 \<or> row c \<ge> dim (options g) \<or> col c < 0 \<or> col c \<ge> dim (options g)
     then False else True)"

text \<open>
  \<open>__post_init__\<close> always replaces the board by a fresh \<open>dim \<times> dim\<close> grid and \<open>set\<close>
  only overwrites cells, so the board of every game object has this shape.
\<close>

definition board_ok :: "Game \<Rightarrow> bool" where
  "board_ok g =
    (0 \<le> dim (options g) \<and> length (board g) = nat (dim (options g)) \<and>
     list_all (\<lambda>r. length r = nat (dim (options g))) (board g))"

text \<open>
  \<open>Game.get\<close>. On a board of the shape above the index is in range whenever the coordinate
  is valid; \<open>get_chk\<close> is the same read with Python's IndexError written out.
\<close>

definition get :: "Game \<Rightarrow> Coord \<Rightarrow> Unit option" where
  "get g c = (if is_valid_coord g c then board g ! nat (row c) ! nat (col c) else None)"

definition get_chk :: "Game \<Rightarrow> Coord \<Rightarrow> error + Unit option" where
  "get_chk g c =
    (if is_valid_coord g c then
       (if nat (row c) < length (board g) \<and> nat (col c) < length (board g ! nat (row c))
        then Inr (board g ! nat (row c) ! nat (col c))
        else Inl IndexError)
     else Inr None)"

definition set_cell :: "Game \<Rightarrow> Coord \<Rightarrow> Unit option \<Rightarrow> Game" where
  "set_cell g c u =
    (if is_valid_coord g c
     then g\<lparr>board := (board g)[nat (row c) := (board g ! nat (row c))[nat (col c) := u]]\<rparr>
     else g)"

definition remove_dead :: "Game \<Rightarrow> Coord \<Rightarrow> Game" where
  "remove_dead g c =
    (case get g c of
       None \<Rightarrow> g
     | Some u \<Rightarrow>
         if \<not> is_alive u then
           (let g' = set_cell g c None
            in if unit_type u = AI then
                 (if player u = Attacker then g'\<lparr>attacker_has_ai := False\<rparr>
                  else g'\<lparr>defender_has_ai := False\<rparr>)
               else g')
         else g)"

text \<open>
  \<open>Game.mod_health\<close>. The unit object lives in the board cell, so mutating it is an
  update of that cell.
\<close>

definition mod_health :: "Game \<Rightarrow> Coord \<Rightarrow> int \<Rightarrow> Game" where
  "mod_health g c health_delta =
    (case get g c of
       None \<Rightarrow> g
     | Some target \<Rightarrow> remove_dead (set_cell g c (Some (unit_mod_health target health_delta))) c)"

section \<open>Move legality\<close>

text \<open>
  \<open>iter_adjacent\<close> is a generator. The membership test \<open>dst not in adjacent_coords\<close> of
  \<open>is_valid_move\<close> consumes it up to and including the first match, and the later
  \<open>for coord in adjacent_coords\<close> sees only what is left.
\<close>

fun gen_rest :: "'a \<Rightarrow> 'a list \<Rightarrow> 'a list" where
  "gen_rest x [] = []"
| "gen_rest x (y # ys) = (if y = x then ys else gen_rest x ys)"

definition enemy_at :: "Game \<Rightarrow> Unit \<Rightarrow> Coord \<Rightarrow> bool" where
  "enemy_at g u c =
    (case get g c of None \<Rightarrow> False | Some adjacent_unit \<Rightarrow> player adjacent_unit \<noteq> player u)"

definition advance_ok :: "Unit \<Rightarrow> CoordPair \<Rightarrow> bool" where
  "advance_ok u coords =
    (if player u = Attacker then
       (if dst coords = mk_coord (row (src coords) - 1) (col (src coords)) \<or>
           dst coords = mk_coord (row (src coords)) (col (src coords) - 1)
        then True else False)
     else
       (if dst coords = mk_coord (row (src coords) + 1) (col (src coords)) \<or>
           dst coords = mk_coord (row (src coords)) (col (src coords) + 1)
        then True else False))"

text \<open>The part of both predicates after the target has been read.\<close>

definition target_rule :: "Game \<Rightarrow> Unit \<Rightarrow> CoordPair \<Rightarrow> Coord list \<Rightarrow> bool" where
  "target_rule g u coords remaining =
    (case get g (dst coords) of
       None \<Rightarrow>
         if unit_type u = Tech \<or> unit_type u = Virus then True
         else if list_ex (enemy_at g u) remaining then False
         else advance_ok u coords
     | Some target \<Rightarrow>
         if player target = player u \<and> repair_amount u target > 0 then True
         else if player target \<noteq> player u then True
         else False)"

definition is_valid_move :: "Game \<Rightarrow> CoordPair \<Rightarrow> bool" where
  "is_valid_move g coords =
    (if \<not> is_valid_coord g (src coords) \<or> \<not> is_valid_coord g (dst coords) then False
     else case get g (src coords) of
       None \<Rightarrow> False
     | Some u \<Rightarrow>
         if player u \<noteq> next_player g then False
         else if src coords = dst coords then True
         else if dst coords \<notin> set (iter_adjacent (src coords)) then False
         else target_rule g u coords (gen_rest (dst coords) (iter_adjacent (src coords))))"

definition is_valid_move_for_AI :: "Game \<Rightarrow> CoordPair \<Rightarrow> Player \<Rightarrow> bool" where
  "is_valid_move_for_AI g coords p =
    (if \<not> is_valid_coord g (src coords) \<or> \<not> is_valid_coord g (dst coords) then False
     else case get g (src coords) of
       None \<Rightarrow> False
     | Some u \<Rightarrow>
         if player u \<noteq> p then False
         else if src coords = dst coords then True
         else target_rule g u coords (iter_adjacent (src coords)))"

section \<open>Move resolution\<close>

text \<open>
  The body shared by \<open>perform_move\<close> and \<open>perform_move_for_AI\<close>; the acting player is
  \<open>self.next_player\<close> in the first and the parameter in the second. \<open>src_unit\<close> and
  \<open>dst_unit\<close> are references to the objects stored in the board, so each \<open>mod_health\<close> on
  them is written back to the cell. When the destination holds a unit and the source does
  not, every remaining branch calls a method of \<open>None\<close> (AttributeError). The summary text
  that the source returns with the flag is not modelled.
\<close>

definition resolve_move :: "Game \<Rightarrow> CoordPair \<Rightarrow> Player \<Rightarrow> error + Game" where
  "resolve_move g coords p =
    (let dst_unit = get g (dst coords); src_unit = get g (src coords)
     in case dst_unit of
          None \<Rightarrow> Inr (set_cell (set_cell g (dst coords) src_unit) (src coords) None)
        | Some du \<Rightarrow>
            (case src_unit of
               None \<Rightarrow> Inl AttributeError
             | Some su \<Rightarrow>
                 if dst coords = src coords then
                   Inr (fold (\<lambda>unit_in_range h. mod_health h unit_in_range (- 2))
                          (iter_range (src coords) 1)
                          (remove_dead
                             (set_cell g (src coords) (Some (unit_mod_health su (- health su))))
                             (src coords)))
                 else if player du = p then
                   Inr (set_cell g (dst coords) (Some (unit_mod_health du (repair_amount su du))))
                 else
                   (let du' = unit_mod_health du (- damage_amount su du);
                        su' = unit_mod_health su (- damage_amount du' su);
                        g1 = set_cell g (dst coords) (Some du');
                        g2 = set_cell g1 (src coords) (Some su')
                    in Inr (remove_dead (remove_dead g2 (dst coords)) (src coords)))))"

definition perform_move_for_AI :: "Game \<Rightarrow> CoordPair \<Rightarrow> Player \<Rightarrow> error + bool \<times> Game" where
  "perform_move_for_AI g coords p =
    (case resolve_move g coords p of Inl e \<Rightarrow> Inl e | Inr g' \<Rightarrow> Inr (True, g'))"

definition perform_move :: "Game \<Rightarrow> CoordPair \<Rightarrow> error + bool \<times> Game" where
  "perform_move g coords =
    (if is_valid_move g coords then
       (case resolve_move g coords (next_player g) of Inl e \<Rightarrow> Inl e | Inr g' \<Rightarrow> Inr (True, g'))
     else Inr (False, g))"

definition next_turn :: "Game \<Rightarrow> Game" where
  "next_turn g = g\<lparr>next_player := player_next (next_player g), turns_played := turns_played g + 1\<rparr>"

section \<open>End of game and candidate moves\<close>

definition has_winner :: "Game \<Rightarrow> Player option" where
  "has_winner g =
    (if max_turns (options g) \<noteq> None \<and> turns_played g \<ge> the (max_turns (options g))
     then Some Defender
     else if attacker_has_ai g then
       (if defender_has_ai g then None else Some Attacker)
     else Some Defender)"

definition is_finished :: "Game \<Rightarrow> bool" where
  "is_finished g = (has_winner g \<noteq> None)"

definition player_units :: "Game \<Rightarrow> Player \<Rightarrow> (Coord \<times> Unit) list" where
  "player_units g p =
    concat (map (\<lambda>coord. case get g coord of
                            None \<Rightarrow> []
                          | Some u \<Rightarrow> if player u = p then [(coord, u)] else [])
                (iter_rectangle (from_dim (dim (options g)))))"

definition move_candidates_for_AI :: "Game \<Rightarrow> Player \<Rightarrow> CoordPair list" where
  "move_candidates_for_AI g p =
    (if has_winner g \<noteq> None then []
     else concat (map (\<lambda>su.
                    filter (\<lambda>move. is_valid_move_for_AI g move p)
                           (map (mk_move (fst su)) (iter_adjacent (fst su))) @
                    [mk_move (fst su) (fst su)])
                  (player_units g p)))"

section \<open>Heuristic evaluators\<close>

text \<open>
  The evaluators read the board through \<open>get_chk\<close> and divide through \<open>py_div\<close>, so an
  out-of-range read or a division by zero is a value of the result.
\<close>

definition err_bind :: "error + 'a \<Rightarrow> ('a \<Rightarrow> error + 'b) \<Rightarrow> error + 'b" where
  "err_bind m f = (case m of Inl e \<Rightarrow> Inl e | Inr x \<Rightarrow> f x)"

fun fold_err :: "('a \<Rightarrow> 's \<Rightarrow> error + 's) \<Rightarrow> 'a list \<Rightarrow> 's \<Rightarrow> error + 's" where
  "fold_err f [] s = Inr s"
| "fold_err f (x # xs) s = (case f x s of Inl e \<Rightarrow> Inl e | Inr s' \<Rightarrow> fold_err f xs s')"

definition py_div :: "int \<Rightarrow> int \<Rightarrow> error + real" where
  "py_div a b = (if b = 0 then Inl ZeroDivisionError else Inr (real_of_int a / real_of_int b))"

definition e0_step :: "Game \<Rightarrow> Coord \<Rightarrow> int \<Rightarrow> error + int" where
  "e0_step g coord heuristic_score =
    err_bind (get_chk g coord) (\<lambda>cell.
      case cell of
        None \<Rightarrow> Inr heuristic_score
      | Some u \<Rightarrow>
          if player u = Attacker then
            (if unit_type u = AI then Inr (heuristic_score + 9999)
             else Inr (heuristic_score + 3))
          else
            (if unit_type u = AI then Inr (heuristic_score - 9999)
             else Inr (heuristic_score - 3)))"

definition compute_heuristic_e0 :: "Game \<Rightarrow> error + int" where
  "compute_heuristic_e0 g =
    fold_err (e0_step g) (iter_rectangle (from_dim (dim (options g)))) 0"

definition e1_step :: "Game \<Rightarrow> Coord \<Rightarrow> real \<Rightarrow> error + real" where
  "e1_step g coord heuristic_score =
    err_bind (get_chk g coord) (\<lambda>cell.
      case cell of
        None \<Rightarrow> Inr heuristic_score
      | Some u \<Rightarrow>
          err_bind (py_div (health u) 9) (\<lambda>q.
            if player u = Attacker then
              (if unit_type u = AI then Inr (heuristic_score + 999 * q)
               else if unit_type u = Virus then Inr (heuristic_score + 9 * q)
               else if unit_type u = Program then Inr (heuristic_score + 7 * q)
               else Inr (heuristic_score + 3 * q))
            else
              (if unit_type u = AI then Inr (heuristic_score - 999 * q)
               else if unit_type u = Tech then Inr (heuristic_score - 8 * q)
               else if unit_type u = Program then Inr (heuristic_score - 8 * q)
               else Inr (heuristic_score - 3 * q))))"

definition compute_heuristic_e1 :: "Game \<Rightarrow> error + real" where
  "compute_heuristic_e1 g =
    fold_err (e1_step g) (iter_rectangle (from_dim (dim (options g)))) 0"

record e2_vars =
  heuristic_score :: real
  Attacker_AI_coord :: "Coord option"
  Defender_AI_coord :: "Coord option"
  Virus_coord_1 :: "Coord option"
  Virus_coord_2 :: "Coord option"
  Tech_coord_1 :: "Coord option"
  Tech_coord_2 :: "Coord option"

text \<open>
  The inner loops of e2 over the neighbours of a Command unit; the state is
  \<open>(adjacent_units, heuristic_score)\<close>.
\<close>

definition e2_around_attacker :: "Game \<Rightarrow> Unit \<Rightarrow> Coord \<Rightarrow> int \<times> real \<Rightarrow> error + int \<times> real" where
  "e2_around_attacker g u coord_around st =
    err_bind (get_chk g coord_around) (\<lambda>unit_around.
      case unit_around of
        None \<Rightarrow> Inr st
      | Some ua \<Rightarrow>
          if player ua = player u then
            err_bind (py_div 9 (health u)) (\<lambda>q.
              let adjacent_units = fst st + 1;
                  sc = snd st + 3 * q
              in if adjacent_units = 4 then Inr (adjacent_units, sc + 5)
                 else Inr (adjacent_units, sc))
          else Inr st)"

definition e2_around_defender :: "Game \<Rightarrow> Unit \<Rightarrow> Coord \<Rightarrow> int \<times> real \<Rightarrow> error + int \<times> real" where
  "e2_around_defender g u coord_around st =
    err_bind (get_chk g coord_around) (\<lambda>unit_around.
      case unit_around of
        None \<Rightarrow> Inr st
      | Some ua \<Rightarrow>
          if player ua = player u then
            (let adjacent_units = fst st + 1;
                 sc = snd st - 40
             in if adjacent_units = 2 then Inr (adjacent_units, sc - 50)
                else Inr (adjacent_units, sc))
          else Inr st)"

definition e2_step :: "Game \<Rightarrow> Coord \<Rightarrow> e2_vars \<Rightarrow> error + e2_vars" where
  "e2_step g coord v =
    err_bind (get_chk g coord) (\<lambda>cell.
      case cell of
        None \<Rightarrow> Inr v
      | Some u \<Rightarrow>
          err_bind (py_div (health u) 9) (\<lambda>q.
            if player u = Attacker then
              (if unit_type u = AI then
                 err_bind (fold_err (e2_around_attacker g u) (iter_adjacent coord)
                             (0, heuristic_score v + 999 * q))
                   (\<lambda>r. Inr (v\<lparr>heuristic_score := snd r, Attacker_AI_coord := Some coord\<rparr>))
               else if unit_type u = Virus then
                 (if Virus_coord_1 v \<noteq> None
                  then Inr (v\<lparr>heuristic_score := heuristic_score v + 9 * q,
                              Virus_coord_2 := Some coord\<rparr>)
                  else Inr (v\<lparr>heuristic_score := heuristic_score v + 9 * q,
                              Virus_coord_1 := Some coord\<rparr>))
               else if unit_type u = Program then
                 Inr (v\<lparr>heuristic_score := heuristic_score v + 7 * q\<rparr>)
               else Inr (v\<lparr>heuristic_score := heuristic_score v + 3 * q\<rparr>))
            else
              (if unit_type u = AI then
                 err_bind (fold_err (e2_around_defender g u) (iter_adjacent coord)
                             (0, heuristic_score v - 999 * q))
                   (\<lambda>r. Inr (v\<lparr>heuristic_score := snd r, Defender_AI_coord := Some coord\<rparr>))
               else if unit_type u = Tech then
                 (if Tech_coord_1 v \<noteq> None
                  then Inr (v\<lparr>heuristic_score := heuristic_score v - 50 * q,
                              Tech_coord_2 := Some coord\<rparr>)
                  else Inr (v\<lparr>heuristic_score := heuristic_score v - 50 * q,
                              Tech_coord_1 := Some coord\<rparr>))
               else if unit_type u = Program then
                 Inr (v\<lparr>heuristic_score := heuristic_score v - 40 * q\<rparr>)
               else Inr (v\<lparr>heuristic_score := heuristic_score v - 40 * q\<rparr>))))"

definition manhattan :: "Coord \<Rightarrow> Coord \<Rightarrow> int" where
  "manhattan a b = \<bar>row a - row b\<bar> + \<bar>col a - col b\<bar>"

text \<open>
  The four closing statements of e2. Each has the shape: when both units of a kind and the
  opposing Command unit are known, divide by the larger distance; when at least one is
  known, divide by the distance of the second if there is one, else of the first.
\<close>

definition e2_far :: "Coord option \<Rightarrow> Coord option \<Rightarrow> Coord option \<Rightarrow> int \<Rightarrow> error + real" where
  "e2_far c1 c2 target k =
    (if (c1 \<noteq> None \<and> c2 \<noteq> None) \<and> target \<noteq> None
     then py_div k (max (manhattan (the c1) (the target)) (manhattan (the c2) (the target)))
     else Inr 0)"

definition e2_near :: "Coord option \<Rightarrow> Coord option \<Rightarrow> Coord option \<Rightarrow> int \<Rightarrow> error + real option" where
  "e2_near c1 c2 target k =
    (if (c1 \<noteq> None \<or> c2 \<noteq> None) \<and> target \<noteq> None
     then (let c = (if c2 = None then c1 else c2)
           in case c of
                None \<Rightarrow> Inl AttributeError
              | Some cc \<Rightarrow> err_bind (py_div k (manhattan cc (the target))) (\<lambda>q. Inr (Some q)))
     else Inr None)"

definition e2_final :: "e2_vars \<Rightarrow> error + real" where
  "e2_final v =
    err_bind (e2_far (Virus_coord_1 v) (Virus_coord_2 v) (Defender_AI_coord v) 100) (\<lambda>a.
    err_bind (e2_near (Virus_coord_1 v) (Virus_coord_2 v) (Defender_AI_coord v) 100) (\<lambda>b.
    err_bind (e2_far (Tech_coord_1 v) (Tech_coord_2 v) (Attacker_AI_coord v) 50) (\<lambda>c.
    err_bind (e2_near (Tech_coord_1 v) (Tech_coord_2 v) (Attacker_AI_coord v) 50) (\<lambda>d.
      let s1 = heuristic_score v + a;
          s2 = (case b of None \<Rightarrow> s1 | Some q \<Rightarrow> s1 + q - 9);
          s3 = s2 - c;
          s4 = (case d of None \<Rightarrow> s3 | Some q \<Rightarrow> s3 - q + 9)
      in Inr s4))))"

definition e2_init :: e2_vars where
  "e2_init =
    \<lparr>heuristic_score = 0, Attacker_AI_coord = None, Defender_AI_coord = None,
     Virus_coord_1 = None, Virus_coord_2 = None, Tech_coord_1 = None, Tech_coord_2 = None\<rparr>"

definition compute_heuristic_e2 :: "Game \<Rightarrow> error + real" where
  "compute_heuristic_e2 g =
    err_bind (fold_err (e2_step g) (iter_rectangle (from_dim (dim (options g)))) e2_init) e2_final"

section \<open>Search\<close>

text \<open>
  \<open>evaluations_per_depth\<close> is a Python dict: \<open>dict_get\<close> is \<open>d.get(k, default)\<close> and
  \<open>dict_set\<close> is \<open>d[k] = v\<close>, which keeps the position of an existing key.
\<close>

fun dict_get :: "(int \<times> int) list \<Rightarrow> int \<Rightarrow> int \<Rightarrow> int" where
  "dict_get [] k d = d"
| "dict_get ((k', v) # xs) k d = (if k' = k then v else dict_get xs k d)"

fun dict_set :: "(int \<times> int) list \<Rightarrow> int \<Rightarrow> int \<Rightarrow> (int \<times> int) list" where
  "dict_set [] k v = [(k, v)]"
| "dict_set ((k', v') # xs) k v = (if k' = k then (k, v) # xs else (k', v') # dict_set xs k v)"

text \<open>
  What the search threads through every call: the shared \<open>Stats\<close> object and the number
  of times \<open>datetime.now()\<close> has been read. The wall clock is a parameter
  \<open>clock :: nat \<Rightarrow> real\<close>, the seconds shown at its n-th reading.
\<close>

record SearchState =
  stats :: Stats
  reads :: nat

definition count_candidates :: "SearchState \<Rightarrow> int \<Rightarrow> int \<Rightarrow> SearchState" where
  "count_candidates st depth n =
    st\<lparr>stats := (stats st)\<lparr>evaluations_per_depth :=
        dict_set (evaluations_per_depth (stats st)) depth
          (dict_get (evaluations_per_depth (stats st)) depth 0 + n)\<rparr>\<rparr>"

text \<open>
  The deadline test at the end of each loop round,
  \<open>(datetime.now() - start_time).total_seconds() >= max_time - 0.1\<close>; it reads the clock
  once and raises TypeError when \<open>max_time\<close> is \<open>None\<close>.
\<close>

definition time_is_up :: "(nat \<Rightarrow> real) \<Rightarrow> real \<Rightarrow> Game \<Rightarrow> SearchState \<Rightarrow> error + bool \<times> SearchState" where
  "time_is_up clock start_time g st =
    (case max_time (options g) of
       None \<Rightarrow> Inl TypeError
     | Some mt \<Rightarrow> Inr (clock (reads st) - start_time \<ge> mt - 1 / 10, st\<lparr>reads := Suc (reads st)\<rparr>))"

definition heuristic_of :: "Game \<Rightarrow> error + real" where
  "heuristic_of g =
    (if heuristic (options g) = Some 0
     then err_bind (compute_heuristic_e0 g) (\<lambda>s. Inr (real_of_int s))
     else if heuristic (options g) = Some 1 then compute_heuristic_e1 g
     else compute_heuristic_e2 g)"

definition other_player :: "Player \<Rightarrow> Player" where
  "other_player p = (if p = Defender then Attacker else Defender)"

text \<open>
  A search call returns a pair \<open>(score, move)\<close>, or Python's \<open>None\<close> when the function
  body ends without a \<open>return\<close> (no candidate move); the caller's tuple unpacking then
  raises TypeError. The loop variables \<open>best_heuristic\<close>, \<open>best_move\<close> and
  \<open>best_clone_game\<close> are kept in a record.
\<close>

type_synonym search_result = "(real \<times> CoordPair option) option"

record best_vars =
  best_heuristic :: real
  best_move :: "CoordPair option"
  best_clone_game :: "Game option"

definition better :: "CoordPair \<Rightarrow> Game \<Rightarrow> real \<Rightarrow> best_vars" where
  "better move_candidate clone_game current_heuristic =
    \<lparr>best_heuristic = current_heuristic, best_move = Some move_candidate,
     best_clone_game = Some clone_game\<rparr>"

primrec minimax_loop ::
  "(Game \<Rightarrow> SearchState \<Rightarrow> error + search_result \<times> SearchState) \<Rightarrow>
   (nat \<Rightarrow> real) \<Rightarrow> real \<Rightarrow> Game \<Rightarrow> Player \<Rightarrow> CoordPair list \<Rightarrow> best_vars \<Rightarrow>
   SearchState \<Rightarrow> error + best_vars \<times> SearchState" where
  "minimax_loop child clock start_time g p [] best st = Inr (best, st)"
| "minimax_loop child clock start_time g p (move_candidate # rest) best st =
    (case perform_move_for_AI g move_candidate p of
       Inl e \<Rightarrow> Inl e
     | Inr performed \<Rightarrow>
         (let clone_game = snd performed
          in case child clone_game st of
               Inl e \<Rightarrow> Inl e
             | Inr returned \<Rightarrow>
                 (case fst returned of
                    None \<Rightarrow> Inl TypeError
                  | Some score_move \<Rightarrow>
                      (let current_heuristic = fst score_move;
                           best' =
                             (if (p = Attacker \<and> current_heuristic > best_heuristic best) \<or>
                                 (p = Defender \<and> current_heuristic < best_heuristic best)
                              then better move_candidate clone_game current_heuristic
                              else best)
                       in case time_is_up clock start_time g (snd returned) of
                            Inl e \<Rightarrow> Inl e
                          | Inr checked \<Rightarrow>
                              if fst checked then Inr (best', snd checked)
                              else minimax_loop child clock start_time g p rest best'
                                     (snd checked)))))"

text \<open>The closing \<open>return (best_clone_game.compute_heuristic_eN(), best_move)\<close>.\<close>

definition search_return :: "best_vars \<times> SearchState \<Rightarrow> error + search_result \<times> SearchState" where
  "search_return r =
    (case best_clone_game (fst r) of
       None \<Rightarrow> Inl AttributeError
     | Some chosen \<Rightarrow>
         err_bind (heuristic_of chosen) (\<lambda>s. Inr (Some (s, best_move (fst r)), snd r)))"

definition initial_best :: "Player \<Rightarrow> best_vars" where
  "initial_best p =
    \<lparr>best_heuristic = real_of_int (if p = Defender then MAX_HEURISTIC_SCORE
                                     else MIN_HEURISTIC_SCORE),
     best_move = None, best_clone_game = None\<rparr>"

text \<open>
  \<open>Game.minimax\<close>. The first argument bounds the depth of the Python call stack; running
  out of it is RecursionError. The receiver \<open>self\<close> (and, for alpha-beta, the window) come
  last, so that the recursive call on a clone is a partial application.
\<close>

primrec minimax ::
  "nat \<Rightarrow> (nat \<Rightarrow> real) \<Rightarrow> int \<Rightarrow> Player \<Rightarrow> real \<Rightarrow> Game \<Rightarrow> SearchState \<Rightarrow>
   error + search_result \<times> SearchState" where
  "minimax 0 clock depth p start_time g st = Inl RecursionError"
| "minimax (Suc fuel) clock depth p start_time g st =
    (if Some depth = max_depth (options g) \<or> has_winner g \<noteq> None then
       err_bind (heuristic_of g) (\<lambda>s. Inr (Some (s, None), st))
     else
       (let move_candidates = move_candidates_for_AI g p;
            st1 = count_candidates st depth (int (length move_candidates))
        in if length move_candidates > 0 then
             err_bind
               (minimax_loop (minimax fuel clock (depth + 1) (other_player p) start_time)
                  clock start_time g p move_candidates (initial_best p) st1)
               search_return
           else Inr (None, st1)))"

text \<open>The loop of \<open>minimax_alphabeta\<close>; \<open>alpha\<close> and \<open>beta\<close> are loop variables too.\<close>

primrec alphabeta_loop ::
  "(Game \<Rightarrow> real \<Rightarrow> real \<Rightarrow> SearchState \<Rightarrow> error + search_result \<times> SearchState) \<Rightarrow>
   (nat \<Rightarrow> real) \<Rightarrow> real \<Rightarrow> Game \<Rightarrow> Player \<Rightarrow> CoordPair list \<Rightarrow> best_vars \<Rightarrow>
   real \<Rightarrow> real \<Rightarrow> SearchState \<Rightarrow> error + best_vars \<times> SearchState" where
  "alphabeta_loop child clock start_time g p [] best alpha beta st = Inr (best, st)"
| "alphabeta_loop child clock start_time g p (move_candidate # rest) best alpha beta st =
    (case perform_move_for_AI g move_candidate p of
       Inl e \<Rightarrow> Inl e
     | Inr performed \<Rightarrow>
         (let clone_game = snd performed
          in case child clone_game alpha beta st of
               Inl e \<Rightarrow> Inl e
             | Inr returned \<Rightarrow>
                 (case fst returned of
                    None \<Rightarrow> Inl TypeError
                  | Some score_move \<Rightarrow>
                      (let current_heuristic = fst score_move;
                           best1 =
                             (if p = Attacker \<and> current_heuristic > best_heuristic best
                              then better move_candidate clone_game current_heuristic
                              else best);
                           alpha' = (if p = Attacker then max alpha (best_heuristic best1)
                                     else alpha)
                       in if p = Attacker \<and> beta \<le> alpha' then Inr (best1, snd returned)
                          else
                            (let best2 =
                               (if p = Defender \<and> current_heuristic < best_heuristic best1
                                then better move_candidate clone_game current_heuristic
                                else best1);
                                 beta' = (if p = Defender then min beta (best_heuristic best2)
                                          else beta)
                             in if p = Defender \<and> beta' \<le> alpha'
                                then Inr (best2, snd returned)
                                else
                                  (case time_is_up clock start_time g (snd returned) of
                                     Inl e \<Rightarrow> Inl e
                                   | Inr checked \<Rightarrow>
                                       if fst checked then Inr (best2, snd checked)
                                       else alphabeta_loop child clock start_time g p rest
                                              best2 alpha' beta' (snd checked)))))))"

primrec minimax_alphabeta ::
  "nat \<Rightarrow> (nat \<Rightarrow> real) \<Rightarrow> int \<Rightarrow> Player \<Rightarrow> real \<Rightarrow> Game \<Rightarrow> real \<Rightarrow> real \<Rightarrow> SearchState \<Rightarrow>
   error + search_result \<times> SearchState" where
  "minimax_alphabeta 0 clock depth p start_time g alpha beta st = Inl RecursionError"
| "minimax_alphabeta (Suc fuel) clock depth p start_time g alpha beta st =
    (if Some depth = max_depth (options g) \<or> has_winner g \<noteq> None then
       err_bind (heuristic_of g) (\<lambda>s. Inr (Some (s, None), st))
     else
       (let move_candidates = move_candidates_for_AI g p;
            st1 = count_candidates st depth (int (length move_candidates))
        in if length move_candidates > 0 then
             err_bind
               (alphabeta_loop
                  (minimax_alphabeta fuel clock (depth + 1) (other_player p) start_time)
                  clock start_time g p move_candidates (initial_best p) alpha beta st1)
               search_return
           else Inr (None, st1)))"

definition run_algorithm ::
  "nat \<Rightarrow> (nat \<Rightarrow> real) \<Rightarrow> Player \<Rightarrow> real \<Rightarrow> Game \<Rightarrow> SearchState \<Rightarrow>
   error + search_result \<times> SearchState" where
  "run_algorithm fuel clock p start_time g st =
    (if alpha_beta (options g) = False then minimax fuel clock 1 p start_time g st
     else minimax_alphabeta fuel clock 1 p start_time g (real_of_int MIN_HEURISTIC_SCORE)
            (real_of_int MAX_HEURISTIC_SCORE) st)"

text \<open>
  \<open>Game.suggest_move\<close>. It reads the clock before and after the search. The text it
  returns is kept as the data it is printed from: the timeout message, or the score, the
  per-depth table and the elapsed seconds. The percentages divide by the total number of
  evaluations inside the loop over the table's keys.
\<close>

datatype Report = Computer_timed_out | Search_report real "(int \<times> int) list" real

definition is_AI_entry :: "Coord \<times> Unit \<Rightarrow> bool" where
  "is_AI_entry cu = (unit_type (snd cu) = AI)"

definition forfeit :: "Game \<Rightarrow> Coord \<times> Unit \<Rightarrow> Game" where
  "forfeit g cu = set_cell g (fst cu) (Some (unit_mod_health (snd cu) (- health (snd cu))))"

definition suggest_move ::
  "nat \<Rightarrow> (nat \<Rightarrow> real) \<Rightarrow> Game \<Rightarrow> SearchState \<Rightarrow>
   error + (CoordPair option \<times> Report) \<times> Game \<times> SearchState" where
  "suggest_move fuel clock g st =
    (let start_time = clock (reads st);
         st0 = st\<lparr>reads := Suc (reads st)\<rparr>
     in case run_algorithm fuel clock (next_player g) start_time g st0 of
          Inl e \<Rightarrow> Inl e
        | Inr returned \<Rightarrow>
            (case fst returned of
               None \<Rightarrow> Inl TypeError
             | Some score_move \<Rightarrow>
                 (let st1 = snd returned;
                      elapsed_seconds = clock (reads st1) - start_time;
                      st2 = st1\<lparr>reads := Suc (reads st1)\<rparr>
                  in case max_time (options g) of
                       None \<Rightarrow> Inl TypeError
                     | Some mt \<Rightarrow>
                         (case (if elapsed_seconds > mt
                                then find is_AI_entry (player_units g (next_player g))
                                else None) of
                            Some cu \<Rightarrow> Inr ((None, Computer_timed_out), forfeit g cu, st2)
                          | None \<Rightarrow>
                              (let st3 = st2\<lparr>stats := (stats st2)\<lparr>total_seconds :=
                                           total_seconds (stats st2) + elapsed_seconds\<rparr>\<rparr>;
                                   evals = evaluations_per_depth (stats st3)
                               in if evals \<noteq> [] \<and> sum_list (map snd evals) = 0
                                  then Inl ZeroDivisionError
                                  else Inr ((snd score_move,
                                             Search_report (fst score_move) evals
                                               elapsed_seconds),
                                            g, st3))))))"

section \<open>The initial position\<close>

text \<open>The defaults of the \<open>Options\<close> dataclass and the layout built by \<open>__post_init__\<close>.\<close>

definition default_options :: Options where
  "default_options =
    \<lparr>dim = 5, max_depth = Some 4, min_depth = Some 2, max_time = Some 5,
     game_type = AttackerVsDefender, alpha_beta = True, max_turns = Some 100,
     randomize_moves = True, broker = None, heuristic = Some 0\<rparr>"

definition mk_unit :: "Player \<Rightarrow> UnitType \<Rightarrow> int \<Rightarrow> Unit" where
  "mk_unit p t h = \<lparr>player = p, unit_type = t, health = h\<rparr>"

definition empty_game :: "Options \<Rightarrow> Game" where
  "empty_game opts =
    \<lparr>board = replicate (nat (dim opts)) (replicate (nat (dim opts)) None),
     next_player = Attacker, turns_played = 0, options = opts,
     attacker_has_ai = True, defender_has_ai = True\<rparr>"

definition place :: "Game \<Rightarrow> (Coord \<times> Unit) list \<Rightarrow> Game" where
  "place g us = fold (\<lambda>cu h. set_cell h (fst cu) (Some (snd cu))) us g"

definition new_game :: "Options \<Rightarrow> Game" where
  "new_game opts =
    (let md = dim opts - 1
     in place (empty_game opts)
          [(mk_coord 0 0, mk_unit Defender AI 9),
           (mk_coord 1 0, mk_unit Defender Tech 9),
           (mk_coord 0 1, mk_unit Defender Tech 9),
           (mk_coord 2 0, mk_unit Defender Firewall 9),
           (mk_coord 0 2, mk_unit Defender Firewall 9),
           (mk_coord 1 1, mk_unit Defender Program 9),
           (mk_coord md md, mk_unit Attacker AI 9),
           (mk_coord (md - 1) md, mk_unit Attacker Virus 9),
           (mk_coord md (md - 1), mk_unit Attacker Virus 9),
           (mk_coord (md - 2) md, mk_unit Attacker Program 9),
           (mk_coord md (md - 2), mk_unit Attacker Program 9),
           (mk_coord (md - 1) (md - 1), mk_unit Attacker Firewall 9)])"

definition fresh_search :: SearchState where
  "fresh_search = \<lparr>stats = \<lparr>evaluations_per_depth = [], total_seconds = 0\<rparr>, reads = 0\<rparr>"

section \<open>Invariants and example positions\<close>

text \<open>
  The invariant of the data model on the units of a board: every unit on it is alive and
  within the health range. (That a cell holds at most one unit is built into the type of
  the board.)
\<close>

definition units_ok :: "Game \<Rightarrow> bool" where
  "units_ok g =
    list_all (list_all (\<lambda>cell. case cell of None \<Rightarrow> True
                                 | Some u \<Rightarrow> 1 \<le> health u \<and> health u \<le> 9)) (board g)"

text \<open>
  The invariant of the loop of e2: each coordinate it has recorded holds a unit of the
  faction it was recorded for.
\<close>

definition holds_unit_of :: "Game \<Rightarrow> Player \<Rightarrow> Coord option \<Rightarrow> bool" where
  "holds_unit_of g p c =
    (case c of None \<Rightarrow> True
     | Some cc \<Rightarrow> (case get g cc of None \<Rightarrow> False | Some u \<Rightarrow> player u = p))"

definition e2_inv :: "Game \<Rightarrow> e2_vars \<Rightarrow> bool" where
  "e2_inv g v =
    (holds_unit_of g Attacker (Attacker_AI_coord v) \<and>
     holds_unit_of g Defender (Defender_AI_coord v) \<and>
     holds_unit_of g Attacker (Virus_coord_1 v) \<and>
     holds_unit_of g Attacker (Virus_coord_2 v) \<and>
     holds_unit_of g Defender (Tech_coord_1 v) \<and>
     holds_unit_of g Defender (Tech_coord_2 v))"

text \<open>
  Two wall clocks: one that never advances, so that no deadline test fires, and one that
  shows six seconds at every reading after the first, as when the process is suspended
  during the first evaluation.
\<close>

definition still_clock :: "nat \<Rightarrow> real" where
  "still_clock n = 0"

definition stalled_clock :: "nat \<Rightarrow> real" where
  "stalled_clock n = (if n = 0 then 0 else 6)"

text \<open>
  Positions used below. In \<open>zugzwang_game\<close> the Attacker's Command unit, down to one
  health point, stands next to the Defender's; in \<open>engaged_game\<close> a Defender Program has
  an enemy Virus below it and it is the Defender's turn; \<open>opening_reply\<close> is the initial
  position after the Attacker's first move; in \<open>wounded_game\<close> a Defender Tech stands
  next to its damaged Command unit.
\<close>

definition zugzwang_game :: Game where
  "zugzwang_game =
    place (empty_game default_options)
      [(mk_coord 0 0, mk_unit Defender AI 9),
       (mk_coord 0 1, mk_unit Attacker AI 1),
       (mk_coord 0 2, mk_unit Attacker Virus 2),
       (mk_coord 1 2, mk_unit Defender Program 9)]"

definition engaged_game :: Game where
  "engaged_game =
    (place (empty_game default_options)
      [(mk_coord 0 0, mk_unit Defender AI 9),
       (mk_coord 1 1, mk_unit Defender Program 9),
       (mk_coord 2 1, mk_unit Attacker Virus 9),
       (mk_coord 4 4, mk_unit Attacker AI 9)])\<lparr>next_player := Defender, turns_played := 1\<rparr>"

definition opening_reply :: Game where
  "opening_reply =
    (case perform_move (new_game default_options) (mk_move (mk_coord 2 4) (mk_coord 1 4)) of
       Inl e \<Rightarrow> new_game default_options
     | Inr r \<Rightarrow> next_turn (snd r))"

definition wounded_game :: Game where
  "wounded_game =
    (place (empty_game default_options)
      [(mk_coord 0 0, mk_unit Defender AI 5),
       (mk_coord 1 0, mk_unit Defender Tech 9),
       (mk_coord 4 4, mk_unit Attacker AI 9)])\<lparr>next_player := Defender, turns_played := 1\<rparr>"

section \<open>Coordinates and board access\<close>

lemma mk_coord_sel [simp]: "row (mk_coord r c) = r" "col (mk_coord r c) = c"
  by (simp_all add: mk_coord_def)

lemma mk_coord_eq [simp]: "(mk_coord r c = mk_coord r' c') = (r = r' \<and> c = c')"
  by (simp add: mk_coord_def)

lemma coord_eq_iff: "(a = b) = (row a = row b \<and> col a = col b)" for a b :: Coord
  by auto

lemma mk_move_sel [simp]: "src (mk_move s d) = s" "dst (mk_move s d) = d"
  by (simp_all add: mk_move_def)

lemma valid_set_cell [simp]: "is_valid_coord (set_cell g c u) c' = is_valid_coord g c'"
  by (simp add: is_valid_coord_def set_cell_def)

lemma options_set_cell [simp]: "options (set_cell g c u) = options g"
  by (simp add: set_cell_def)

lemma flags_set_cell [simp]:
  "attacker_has_ai (set_cell g c u) = attacker_has_ai g"
  "defender_has_ai (set_cell g c u) = defender_has_ai g"
  "next_player (set_cell g c u) = next_player g"
  "turns_played (set_cell g c u) = turns_played g"
  by (simp_all add: set_cell_def)

lemma board_ok_set_cell [simp]: "board_ok g \<Longrightarrow> board_ok (set_cell g c u)"
  by (auto simp: board_ok_def set_cell_def list_all_length nth_list_update is_valid_coord_def)

lemma get_set_cell:
  "board_ok g \<Longrightarrow> get (set_cell g c u) c' = (if c' = c \<and> is_valid_coord g c then u else get g c')"
  by (auto simp: get_def set_cell_def board_ok_def is_valid_coord_def list_all_length
        nth_list_update coord_eq_iff split: if_splits)

lemma get_valid: "get g c = Some u \<Longrightarrow> is_valid_coord g c"
  by (simp add: get_def split: if_splits)

lemma get_flags [simp]:
  "get (g\<lparr>attacker_has_ai := b\<rparr>) c = get g c"
  "get (g\<lparr>defender_has_ai := b\<rparr>) c = get g c"
  by (simp_all add: get_def is_valid_coord_def)

lemma board_ok_flags [simp]:
  "board_ok (g\<lparr>attacker_has_ai := b\<rparr>) = board_ok g"
  "board_ok (g\<lparr>defender_has_ai := b\<rparr>) = board_ok g"
  by (simp_all add: board_ok_def)

lemma board_ok_remove_dead [simp]: "board_ok g \<Longrightarrow> board_ok (remove_dead g c)"
  by (simp add: remove_dead_def Let_def split: option.splits)

lemma get_remove_dead:
  "board_ok g \<Longrightarrow> get (remove_dead g c) c' =
     (if c' = c then (case get g c of None \<Rightarrow> None
                      | Some u \<Rightarrow> if is_alive u then Some u else None)
      else get g c')"
  by (auto simp: remove_dead_def Let_def get_set_cell split: option.splits dest: get_valid)

lemma board_ok_mod_health [simp]: "board_ok g \<Longrightarrow> board_ok (mod_health g c d)"
  by (simp add: mod_health_def split: option.splits)

lemma get_mod_health:
  "board_ok g \<Longrightarrow> get (mod_health g c d) c' =
     (if c' = c then (case get g c of None \<Rightarrow> None
                      | Some u \<Rightarrow> if is_alive (unit_mod_health u d)
                                  then Some (unit_mod_health u d) else None)
      else get g c')"
  by (auto simp: mod_health_def get_remove_dead get_set_cell split: option.splits dest: get_valid)

lemma adjacent_neq: "d \<in> set (iter_adjacent s) \<Longrightarrow> d \<noteq> s"
  by (auto simp: iter_adjacent_def coord_eq_iff)

lemma repair_positive:
  "(repair_amount u t > 0) =
   (repair_table ! type_value (unit_type u) ! type_value (unit_type t) > 0 \<and> health t < 9)"
  by (auto simp: repair_amount_def Let_def)

section \<open>Damage and repair amounts\<close>

text \<open>
  Claim C10. \<open>damage_amount\<close> is the damage-table entry for the two unit types unless
  that entry exceeds the target's health, in which case it is the target's health;
  \<open>repair_amount\<close> is the repair-table entry unless health plus entry would exceed 9, in
  which case it is 9 minus the target's health. So the reported amount alone never takes
  the target's health below 0 or above 9.
\<close>

theorem damage_repair_amount_capped:
  "damage_amount a b =
     (if damage_table ! type_value (unit_type a) ! type_value (unit_type b) > health b
      then health b
      else damage_table ! type_value (unit_type a) ! type_value (unit_type b)) \<and>
   repair_amount a b =
     (if health b + repair_table ! type_value (unit_type a) ! type_value (unit_type b) > 9
      then 9 - health b
      else repair_table ! type_value (unit_type a) ! type_value (unit_type b)) \<and>
   0 \<le> health b - damage_amount a b \<and> health b + repair_amount a b \<le> 9"
  by (simp add: damage_amount_def repair_amount_def Let_def)

theorem damage_repair_amount_capped_witness:
  "damage_amount (mk_unit Attacker Virus 9) (mk_unit Defender AI 5) = 5 \<and>
   repair_amount (mk_unit Defender Tech 9) (mk_unit Defender AI 8) = 1 \<and>
   damage_amount (mk_unit Attacker Program 9) (mk_unit Defender AI 5) = 3 \<and>
   repair_amount (mk_unit Defender Tech 9) (mk_unit Defender Program 2) = 3"
  using damage_repair_amount_capped [of "mk_unit Attacker Virus 9" "mk_unit Defender AI 5"]
    damage_repair_amount_capped [of "mk_unit Defender Tech 9" "mk_unit Defender AI 8"]
    damage_repair_amount_capped [of "mk_unit Attacker Program 9" "mk_unit Defender AI 5"]
    damage_repair_amount_capped [of "mk_unit Defender Tech 9" "mk_unit Defender Program 2"]
  by (simp add: mk_unit_def damage_table_def repair_table_def)

section \<open>The turn limit\<close>

text \<open>
  Claim C8. Once \<open>turns_played\<close> has reached the configured \<open>max_turns\<close>, \<open>has_winner\<close>
  is the Defender and \<open>is_finished\<close> holds, whatever is on the board and whatever the two
  Command flags say.
\<close>

theorem turn_limit_defender_wins:
  "max_turns (options g) = Some m \<Longrightarrow> m \<le> turns_played g \<Longrightarrow>
   has_winner g = Some Defender \<and> is_finished g"
  by (simp add: has_winner_def is_finished_def)

theorem turn_limit_defender_wins_witness:
  "has_winner ((empty_game default_options)\<lparr>turns_played := 100, defender_has_ai := False\<rparr>)
     = Some Defender \<and>
   is_finished ((empty_game default_options)\<lparr>turns_played := 100, defender_has_ai := False\<rparr>)"
  using turn_limit_defender_wins
    [of "(empty_game default_options)\<lparr>turns_played := 100, defender_has_ai := False\<rparr>" 100]
  by (simp add: empty_game_def default_options_def)

section \<open>Repair moves\<close>

text \<open>
  Claim C6, as amended. For a move whose source holds a unit of the acting faction and
  whose destination is one of the 4 neighbours and holds a friendly unit, each of the two
  predicates answers True exactly when the repair-table entry of the acting unit for the
  target's type is positive and the target's health is below 9: the test is on
  \<open>repair_amount\<close>, which is capped by the health the target still lacks.
\<close>

theorem repair_move_legal_iff:
  assumes "get g (src m) = Some u" "get g (dst m) = Some t"
    "dst m \<in> set (iter_adjacent (src m))" "player t = player u"
  shows "(player u = next_player g \<longrightarrow>
            is_valid_move g m =
              (repair_table ! type_value (unit_type u) ! type_value (unit_type t) > 0 \<and>
               health t < 9)) \<and>
         (player u = p \<longrightarrow>
            is_valid_move_for_AI g m p =
              (repair_table ! type_value (unit_type u) ! type_value (unit_type t) > 0 \<and>
               health t < 9))"
  using assms adjacent_neq[of "dst m" "src m"] get_valid[of g "src m" u] get_valid[of g "dst m" t]
  by (auto simp: is_valid_move_def is_valid_move_for_AI_def target_rule_def repair_positive)

text \<open>In \<open>wounded_game\<close> the Tech may repair its Command unit, which has 5 health points.\<close>

theorem repair_move_legal_iff_witness:
  "is_valid_move wounded_game (mk_move (mk_coord 1 0) (mk_coord 0 0)) \<and>
   is_valid_move_for_AI wounded_game (mk_move (mk_coord 1 0) (mk_coord 0 0)) Defender"
proof -
  have h: "get wounded_game (src (mk_move (mk_coord 1 0) (mk_coord 0 0))) = Some (mk_unit Defender Tech 9)"
    "get wounded_game (dst (mk_move (mk_coord 1 0) (mk_coord 0 0))) = Some (mk_unit Defender AI 5)"
    "dst (mk_move (mk_coord 1 0) (mk_coord 0 0)) \<in> set (iter_adjacent (src (mk_move (mk_coord 1 0) (mk_coord 0 0))))"
    "player (mk_unit Defender AI 5) = player (mk_unit Defender Tech 9)"
    by code_simp+
  have e: "player (mk_unit Defender Tech 9) = next_player wounded_game"
    "repair_table ! type_value (unit_type (mk_unit Defender Tech 9)) !
       type_value (unit_type (mk_unit Defender AI 5)) > 0 \<and>
     health (mk_unit Defender AI 5) < 9"
    by code_simp+
  show ?thesis
    using repair_move_legal_iff[OF h, of Defender] e by (simp add: mk_unit_def)
qed

text \<open>
  The claim as first stated, with the table entry alone, fails after the opening move: the
  Tech at B0 has repair entry 3 for the Command unit at A0, which is a friendly neighbour,
  yet neither predicate accepts the move, because that unit has full health.
\<close>

theorem repair_full_health_refused:
  "get opening_reply (mk_coord 1 0) = Some (mk_unit Defender Tech 9) \<and>
   get opening_reply (mk_coord 0 0) = Some (mk_unit Defender AI 9) \<and>
   next_player opening_reply = Defender \<and>
   mk_coord 0 0 \<in> set (iter_adjacent (mk_coord 1 0)) \<and>
   repair_table ! type_value Tech ! type_value AI = 3 \<and>
   \<not> is_valid_move opening_reply (mk_move (mk_coord 1 0) (mk_coord 0 0)) \<and>
   \<not> is_valid_move_for_AI opening_reply (mk_move (mk_coord 1 0) (mk_coord 0 0)) Defender"
  by code_simp

section \<open>Engaged units\<close>

text \<open>
  What the two predicates do with a move of a unit other than Tech or Virus to an empty
  cell: \<open>is_valid_move_for_AI\<close> looks for an enemy on all 4 neighbours,
  \<open>is_valid_move\<close> only on those that the generator yields after the destination.
\<close>

lemma for_AI_engaged_rule:
  assumes "get g (src m) = Some u" "player u = p" "unit_type u \<noteq> Tech" "unit_type u \<noteq> Virus"
    "is_valid_coord g (dst m)" "get g (dst m) = None"
  shows "is_valid_move_for_AI g m p =
           (\<not> list_ex (enemy_at g u) (iter_adjacent (src m)) \<and> advance_ok u m)"
proof -
  have "src m \<noteq> dst m" using assms by auto
  then show ?thesis
    using assms get_valid[of g "src m" u]
    by (simp add: is_valid_move_for_AI_def target_rule_def)
qed

lemma is_valid_move_engaged_rule:
  assumes "get g (src m) = Some u" "player u = next_player g" "unit_type u \<noteq> Tech"
    "unit_type u \<noteq> Virus" "dst m \<in> set (iter_adjacent (src m))"
    "is_valid_coord g (dst m)" "get g (dst m) = None"
  shows "is_valid_move g m =
           (\<not> list_ex (enemy_at g u) (gen_rest (dst m) (iter_adjacent (src m))) \<and>
            advance_ok u m)"
proof -
  have "src m \<noteq> dst m" using assms by auto
  then show ?thesis
    using assms get_valid[of g "src m" u]
    by (simp add: is_valid_move_def target_rule_def)
qed

text \<open>
  Claim C2 at \<open>engaged_game\<close>: the Defender's Program at B1 has the enemy Virus at C1
  below it, and the cell B2 to its right is empty. The claim says both predicates refuse
  the move B1 to B2. \<open>is_valid_move_for_AI\<close> does; \<open>is_valid_move\<close> accepts it, since its
  membership test on the generator of neighbours has consumed all four of them before
  the loop that looks for enemies starts.
\<close>

theorem is_valid_move_lets_engaged_unit_move:
  "get engaged_game (mk_coord 1 1) = Some (mk_unit Defender Program 9) \<and>
   next_player engaged_game = Defender \<and>
   get engaged_game (mk_coord 2 1) = Some (mk_unit Attacker Virus 9) \<and>
   mk_coord 2 1 \<in> set (iter_adjacent (mk_coord 1 1)) \<and>
   mk_coord 1 2 \<in> set (iter_adjacent (mk_coord 1 1)) \<and>
   get engaged_game (mk_coord 1 2) = None \<and>
   is_valid_move engaged_game (mk_move (mk_coord 1 1) (mk_coord 1 2)) \<and>
   \<not> is_valid_move_for_AI engaged_game (mk_move (mk_coord 1 1) (mk_coord 1 2)) Defender"
  by code_simp

theorem is_valid_move_lets_engaged_unit_move_witness:
  "is_valid_move engaged_game (mk_move (mk_coord 1 1) (mk_coord 1 2))"
  using is_valid_move_lets_engaged_unit_move by blast

section \<open>Adjacency of the destination\<close>






section \<open>Attack resolution\<close>

lemma units_ok_get:
  "board_ok g \<Longrightarrow> units_ok g \<Longrightarrow> get g c = Some u \<Longrightarrow> 1 \<le> health u \<and> health u \<le> 9"
proof -
  assume ok: "board_ok g" and uok: "units_ok g" and g: "get g c = Some u"
  let ?r = "nat (row c)" and ?k = "nat (col c)"
  have v: "is_valid_coord g c" using g by (rule get_valid)
  then have r: "?r < length (board g)" and k: "?k < length (board g ! ?r)"
    using ok by (auto simp: board_ok_def is_valid_coord_def list_all_length split: if_splits)
  have cell: "board g ! ?r ! ?k = Some u" using g v by (simp add: get_def)
  have "list_all (\<lambda>cell. case cell of None \<Rightarrow> True
                                 | Some u \<Rightarrow> 1 \<le> health u \<and> health u \<le> 9) (board g ! ?r)"
    using uok r by (simp add: units_ok_def list_all_length)
  then have "case board g ! ?r ! ?k of None \<Rightarrow> True | Some u \<Rightarrow> 1 \<le> health u \<and> health u \<le> 9"
    using k by (simp add: list_all_length)
  then show ?thesis using cell by simp
qed

lemma damage_table_pos:
  "1 \<le> damage_table ! type_value t1 ! type_value t2"
  by (cases t1; cases t2; simp add: damage_table_def)

lemma damage_amount_mod [simp]: "damage_amount (unit_mod_health b d) a = damage_amount b a"
  by (simp add: damage_amount_def unit_mod_health_def Let_def)

lemma damage_amount_upd [simp]: "damage_amount (b\<lparr>health := x\<rparr>) a = damage_amount b a"
  by (simp add: damage_amount_def Let_def)

lemma mod_health_damage:
  "health b \<le> 9 \<Longrightarrow>
   unit_mod_health b (- damage_amount a b) = b\<lparr>health := health b - damage_amount a b\<rparr>"
  using damage_table_pos[of "unit_type a" "unit_type b"]
  by (auto simp: unit_mod_health_def damage_amount_def Let_def)

lemma resolve_attack:
  assumes ok: "board_ok g"
    and a: "get g (src m) = Some a" and b: "get g (dst m) = Some b"
    and enemy: "player b \<noteq> p" and ne: "dst m \<noteq> src m"
    and ha: "health a \<le> 9" and hb: "health b \<le> 9"
  shows "\<exists>g'. resolve_move g m p = Inr g' \<and>
     get g' (dst m) = (if health b - damage_amount a b > 0
                       then Some (b\<lparr>health := health b - damage_amount a b\<rparr>) else None) \<and>
     get g' (src m) = (if health a - damage_amount b a > 0
                       then Some (a\<lparr>health := health a - damage_amount b a\<rparr>) else None)"
  using assms get_valid[OF a] get_valid[OF b]
  by (auto simp: resolve_move_def Let_def get_remove_dead get_set_cell mod_health_damage is_alive_def)

lemma attack_is_valid:
  assumes "get g (src m) = Some a" "player a = next_player g"
    "get g (dst m) = Some b" "player b \<noteq> next_player g"
    "dst m \<in> set (iter_adjacent (src m))"
  shows "is_valid_move g m"
  using assms adjacent_neq[of "dst m" "src m"] get_valid[of g "src m" a] get_valid[of g "dst m" b]
  by (auto simp: is_valid_move_def target_rule_def)

text \<open>
  Claim C4. A move onto a neighbouring cell that holds an enemy unit is legal, and both
  \<open>perform_move\<close> and \<open>perform_move_for_AI\<close> resolve it as mutual damage: the target loses
  \<open>damage_amount\<close> of the pair (acting unit, target) and the acting unit loses
  \<open>damage_amount\<close> of the pair (target, acting unit), and a unit left with no health is
  removed from its cell.
\<close>

theorem attack_is_mutual:
  assumes "board_ok g" "units_ok g"
    and "get g (src m) = Some a" "player a = next_player g"
    and "get g (dst m) = Some b" "player b \<noteq> next_player g"
    and "dst m \<in> set (iter_adjacent (src m))"
  shows "is_valid_move g m \<and>
    (\<exists>g'. perform_move g m = Inr (True, g') \<and>
       get g' (dst m) = (if health b - damage_amount a b > 0
                         then Some (b\<lparr>health := health b - damage_amount a b\<rparr>) else None) \<and>
       get g' (src m) = (if health a - damage_amount b a > 0
                         then Some (a\<lparr>health := health a - damage_amount b a\<rparr>) else None)) \<and>
    (\<exists>g'. perform_move_for_AI g m (next_player g) = Inr (True, g') \<and>
       get g' (dst m) = (if health b - damage_amount a b > 0
                         then Some (b\<lparr>health := health b - damage_amount a b\<rparr>) else None) \<and>
       get g' (src m) = (if health a - damage_amount b a > 0
                         then Some (a\<lparr>health := health a - damage_amount b a\<rparr>) else None))"
proof -
  have v: "is_valid_move g m" using assms(3-7) by (rule attack_is_valid)
  have ne: "dst m \<noteq> src m" using assms(7) by (rule adjacent_neq)
  have ha: "health a \<le> 9" using units_ok_get[OF assms(1,2,3)] by simp
  have hb: "health b \<le> 9" using units_ok_get[OF assms(1,2,5)] by simp
  from resolve_attack[OF assms(1,3,5,6) ne ha hb] obtain g' where
    "resolve_move g m (next_player g) = Inr g'"
    "get g' (dst m) = (if health b - damage_amount a b > 0
                       then Some (b\<lparr>health := health b - damage_amount a b\<rparr>) else None)"
    "get g' (src m) = (if health a - damage_amount b a > 0
                       then Some (a\<lparr>health := health a - damage_amount b a\<rparr>) else None)"
    by blast
  then show ?thesis using v by (simp add: perform_move_def perform_move_for_AI_def)
qed

text \<open>
  In \<open>engaged_game\<close> the Program at B1 attacks the Virus at C1: the Virus loses 3 and the
  Program loses 6.
\<close>

theorem attack_is_mutual_witness:
  "(case perform_move engaged_game (mk_move (mk_coord 1 1) (mk_coord 2 1)) of
      Inl e \<Rightarrow> False
    | Inr r \<Rightarrow>
        fst r \<and>
        get (snd r) (mk_coord 2 1) = Some (mk_unit Attacker Virus 6) \<and>
        get (snd r) (mk_coord 1 1) = Some (mk_unit Defender Program 3))"
proof -
  let ?m = "mk_move (mk_coord 1 1) (mk_coord 2 1)"
  let ?a = "mk_unit Defender Program 9" and ?b = "mk_unit Attacker Virus 9"
  have h: "board_ok engaged_game" "units_ok engaged_game"
    "get engaged_game (src ?m) = Some ?a" "player ?a = next_player engaged_game"
    "get engaged_game (dst ?m) = Some ?b" "player ?b \<noteq> next_player engaged_game"
    "dst ?m \<in> set (iter_adjacent (src ?m))"
    by code_simp+
  have e: "damage_amount ?a ?b = 3" "damage_amount ?b ?a = 6" by code_simp+
  from attack_is_mutual[OF h] obtain g' where
    "perform_move engaged_game ?m = Inr (True, g')"
    "get g' (dst ?m) = (if health ?b - damage_amount ?a ?b > 0
                        then Some (?b\<lparr>health := health ?b - damage_amount ?a ?b\<rparr>) else None)"
    "get g' (src ?m) = (if health ?a - damage_amount ?b ?a > 0
                        then Some (?a\<lparr>health := health ?a - damage_amount ?b ?a\<rparr>) else None)"
    by blast
  then show ?thesis using e by (simp add: mk_unit_def)
qed

section \<open>Self-destruct\<close>

lemma upto3: "[a - 1 .. a + 1] = [a - 1, a, a + 1]" for a :: int
proof -
  have "[a - 1 .. a + 1] = (a - 1) # [a .. a + 1]" by (subst upto_rec1) simp_all
  also have "[a .. a + 1] = a # [a + 1 .. a + 1]" by (subst upto_rec1) simp_all
  finally show ?thesis by simp
qed

lemma iter_range_1:
  "iter_range c 1 =
    [mk_coord (row c - 1) (col c - 1), mk_coord (row c - 1) (col c), mk_coord (row c - 1) (col c + 1),
     mk_coord (row c) (col c - 1), mk_coord (row c) (col c), mk_coord (row c) (col c + 1),
     mk_coord (row c + 1) (col c - 1), mk_coord (row c + 1) (col c), mk_coord (row c + 1) (col c + 1)]"
  unfolding iter_range_def upto3 by simp

lemma distinct_iter_range_1: "distinct (iter_range c 1)"
  unfolding iter_range_1 by simp

lemma mk_coord_eta: "mk_coord (row c) (col c) = c"
  by (simp add: mk_coord_def)

lemma set_iter_range:
  "(c' \<in> set (iter_range c d)) =
   (row c - d \<le> row c' \<and> row c' \<le> row c + d \<and> col c - d \<le> col c' \<and> col c' \<le> col c + d)"
proof
  assume "c' \<in> set (iter_range c d)"
  then obtain r k where "row c - d \<le> r" "r \<le> row c + d" "col c - d \<le> k" "k \<le> col c + d"
    "c' = mk_coord r k"
    by (auto simp: iter_range_def)
  then show "row c - d \<le> row c' \<and> row c' \<le> row c + d \<and> col c - d \<le> col c' \<and> col c' \<le> col c + d"
    by simp
next
  assume h: "row c - d \<le> row c' \<and> row c' \<le> row c + d \<and> col c - d \<le> col c' \<and> col c' \<le> col c + d"
  have "mk_coord (row c') (col c') \<in> set (iter_range c d)"
    unfolding iter_range_def using h
    by (auto intro!: bexI[of _ "row c'"] image_eqI[of _ _ "col c'"])
  then show "c' \<in> set (iter_range c d)" by (simp add: mk_coord_eta)
qed

lemma set_iter_range_1:
  "(c' \<in> set (iter_range c 1)) = (\<bar>row c' - row c\<bar> \<le> 1 \<and> \<bar>col c' - col c\<bar> \<le> 1)"
  unfolding set_iter_range by arith

lemma board_ok_fold_mod_health:
  "board_ok g \<Longrightarrow> board_ok (fold (\<lambda>c h. mod_health h c d) cs g)"
  by (induction cs arbitrary: g) simp_all

lemma get_fold_mod_health:
  "board_ok g \<Longrightarrow> distinct cs \<Longrightarrow>
   get (fold (\<lambda>c h. mod_health h c d) cs g) c' =
     (if c' \<in> set cs
      then (case get g c' of None \<Rightarrow> None
            | Some u \<Rightarrow> if is_alive (unit_mod_health u d)
                        then Some (unit_mod_health u d) else None)
      else get g c')"
proof (induction cs arbitrary: g)
  case Nil
  then show ?case by simp
next
  case (Cons x xs)
  then show ?case by (auto simp: get_mod_health split: option.splits)
qed

lemma splash:
  "health u \<le> 9 \<Longrightarrow>
   (if is_alive (unit_mod_health u (- 2)) then Some (unit_mod_health u (- 2)) else None) =
   (if health u \<le> 2 then None else Some (u\<lparr>health := health u - 2\<rparr>))"
  by (auto simp: unit_mod_health_def is_alive_def Let_def)

lemma resolve_self_destruct:
  assumes ok: "board_ok g" and uok: "units_ok g"
    and a: "get g (src m) = Some a" and eq: "dst m = src m"
  shows "\<exists>g'. resolve_move g m p = Inr g' \<and>
     get g' (src m) = None \<and>
     (\<forall>c. c \<noteq> src m \<longrightarrow>
        get g' c =
          (if \<bar>row c - row (src m)\<bar> \<le> 1 \<and> \<bar>col c - col (src m)\<bar> \<le> 1
           then (case get g c of None \<Rightarrow> None
                 | Some u \<Rightarrow> if health u \<le> 2 then None
                             else Some (u\<lparr>health := health u - 2\<rparr>))
           else get g c))"
proof -
  let ?g0 = "set_cell g (src m) (Some (unit_mod_health a (- health a)))"
  let ?g1 = "remove_dead ?g0 (src m)"
  let ?g' = "fold (\<lambda>c h. mod_health h c (- 2)) (iter_range (src m) 1) ?g1"
  have v: "is_valid_coord g (src m)" using a by (rule get_valid)
  have dead: "\<not> is_alive (unit_mod_health a (- health a))"
    by (simp add: unit_mod_health_def is_alive_def Let_def)
  have g1_src: "get ?g1 (src m) = None"
    using ok v dead by (simp add: get_remove_dead get_set_cell)
  have g1_other: "c \<noteq> src m \<Longrightarrow> get ?g1 c = get g c" for c
    using ok by (simp add: get_remove_dead get_set_cell)
  have ok1: "board_ok ?g1" using ok by simp
  have res: "resolve_move g m p = Inr ?g'"
    using a eq by (simp add: resolve_move_def Let_def)
  have src: "get ?g' (src m) = None"
    using ok1 g1_src by (simp add: get_fold_mod_health distinct_iter_range_1)
  have other: "get ?g' c =
          (if \<bar>row c - row (src m)\<bar> \<le> 1 \<and> \<bar>col c - col (src m)\<bar> \<le> 1
           then (case get g c of None \<Rightarrow> None
                 | Some u \<Rightarrow> if health u \<le> 2 then None
                             else Some (u\<lparr>health := health u - 2\<rparr>))
           else get g c)" if "c \<noteq> src m" for c
  proof (cases "get g c")
    case None
    then show ?thesis using ok1 that
      by (simp add: get_fold_mod_health distinct_iter_range_1 g1_other)
  next
    case (Some u)
    then have "health u \<le> 9" using units_ok_get[OF ok uok] by blast
    then show ?thesis using ok1 that Some
      by (simp add: get_fold_mod_health distinct_iter_range_1 g1_other set_iter_range_1 splash)
  qed
  show ?thesis using res src other by blast
qed

lemma self_destruct_is_valid:
  "get g (src m) = Some a \<Longrightarrow> player a = next_player g \<Longrightarrow> dst m = src m \<Longrightarrow>
   is_valid_move g m"
  using get_valid[of g "src m" a] by (simp add: is_valid_move_def)

text \<open>
  Claim C5. A move of a unit of the acting faction onto its own cell is legal, and
  \<open>perform_move\<close> empties that cell and takes 2 health points from every other unit
  within Chebyshev distance 1 of it, whichever faction it belongs to, removing a unit
  that is left with none; empty cells stay empty and the rest of the board is unchanged.
\<close>

theorem self_destruct_area:
  assumes "board_ok g" "units_ok g"
    and "get g (src m) = Some a" "player a = next_player g" "dst m = src m"
  shows "is_valid_move g m \<and>
    (\<exists>g'. perform_move g m = Inr (True, g') \<and>
       get g' (src m) = None \<and>
       (\<forall>c. c \<noteq> src m \<longrightarrow>
          get g' c =
            (if \<bar>row c - row (src m)\<bar> \<le> 1 \<and> \<bar>col c - col (src m)\<bar> \<le> 1
             then (case get g c of None \<Rightarrow> None
                   | Some u \<Rightarrow> if health u \<le> 2 then None
                               else Some (u\<lparr>health := health u - 2\<rparr>))
             else get g c)))"
proof -
  have v: "is_valid_move g m" using assms(3-5) by (rule self_destruct_is_valid)
  from resolve_self_destruct[OF assms(1,2,3,5), of "next_player g"] obtain g' where
    "resolve_move g m (next_player g) = Inr g'" "get g' (src m) = None"
    "\<forall>c. c \<noteq> src m \<longrightarrow>
        get g' c =
          (if \<bar>row c - row (src m)\<bar> \<le> 1 \<and> \<bar>col c - col (src m)\<bar> \<le> 1
           then (case get g c of None \<Rightarrow> None
                 | Some u \<Rightarrow> if health u \<le> 2 then None
                             else Some (u\<lparr>health := health u - 2\<rparr>))
           else get g c)"
    by blast
  then show ?thesis using v by (simp add: perform_move_def)
qed

text \<open>
  At the initial position the Attacker's Firewall at D3 destroys itself: its own Command
  unit at E4 drops to 7, the Defender's at A0 is out of reach.
\<close>

theorem self_destruct_area_witness:
  "(case perform_move (new_game default_options) (mk_move (mk_coord 3 3) (mk_coord 3 3)) of
      Inl e \<Rightarrow> False
    | Inr r \<Rightarrow>
        fst r \<and>
        get (snd r) (mk_coord 3 3) = None \<and>
        get (snd r) (mk_coord 4 4) = Some (mk_unit Attacker AI 7) \<and>
        get (snd r) (mk_coord 0 0) = Some (mk_unit Defender AI 9))"
proof -
  let ?g = "new_game default_options"
  let ?m = "mk_move (mk_coord 3 3) (mk_coord 3 3)"
  have h: "board_ok ?g" "units_ok ?g"
    "get ?g (src ?m) = Some (mk_unit Attacker Firewall 9)"
    "player (mk_unit Attacker Firewall 9) = next_player ?g" "dst ?m = src ?m"
    by code_simp+
  have e: "get ?g (mk_coord 4 4) = Some (mk_unit Attacker AI 9)"
    "get ?g (mk_coord 0 0) = Some (mk_unit Defender AI 9)"
    by code_simp+
  from self_destruct_area[OF h] obtain g' where g':
    "perform_move ?g ?m = Inr (True, g')" "get g' (src ?m) = None"
    "\<forall>c. c \<noteq> src ?m \<longrightarrow>
        get g' c =
          (if \<bar>row c - row (src ?m)\<bar> \<le> 1 \<and> \<bar>col c - col (src ?m)\<bar> \<le> 1
           then (case get ?g c of None \<Rightarrow> None
                 | Some u \<Rightarrow> if health u \<le> 2 then None
                             else Some (u\<lparr>health := health u - 2\<rparr>))
           else get ?g c)"
    by blast
  have "get g' (mk_coord 4 4) = Some (mk_unit Attacker AI 7)"
    using g'(3)[rule_format, of "mk_coord 4 4"] e(1) by (simp add: mk_unit_def)
  moreover have "get g' (mk_coord 0 0) = Some (mk_unit Defender AI 9)"
    using g'(3)[rule_format, of "mk_coord 0 0"] e(2) by simp
  ultimately show ?thesis using g'(1,2) by simp
qed

section \<open>The evaluators never fail\<close>

lemma get_chk_ok: "board_ok g \<Longrightarrow> get_chk g c = Inr (get g c)"
  by (auto simp: get_chk_def get_def board_ok_def is_valid_coord_def list_all_length split: if_splits)

lemma fold_err_inv:
  assumes "I s" and "\<And>x s. x \<in> set xs \<Longrightarrow> I s \<Longrightarrow> \<exists>s'. f x s = Inr s' \<and> I s'"
  shows "\<exists>s'. fold_err f xs s = Inr s' \<and> I s'"
  using assms
proof (induction xs arbitrary: s)
  case Nil
  then show ?case by simp
next
  case (Cons x xs)
  from Cons.prems obtain s1 where s1: "f x s = Inr s1" "I s1" by (meson list.set_intros(1))
  have "\<exists>s'. fold_err f xs s1 = Inr s' \<and> I s'"
    by (rule Cons.IH[OF s1(2)]) (use Cons.prems(2) in auto)
  then show ?case using s1 by simp
qed

lemma fold_err_total:
  assumes "\<And>x s. x \<in> set xs \<Longrightarrow> \<exists>s'. f x s = Inr s'"
  shows "\<exists>s'. fold_err f xs s = Inr s'"
  using fold_err_inv[of "\<lambda>_. True" s xs f] assms by auto

lemma e0_total: "board_ok g \<Longrightarrow> \<exists>s. compute_heuristic_e0 g = Inr s"
  unfolding compute_heuristic_e0_def
  by (rule fold_err_total) (auto simp: e0_step_def err_bind_def get_chk_ok split: option.splits)

lemma e1_total: "board_ok g \<Longrightarrow> \<exists>s. compute_heuristic_e1 g = Inr s"
  unfolding compute_heuristic_e1_def
  by (rule fold_err_total)
     (auto simp: e1_step_def err_bind_def get_chk_ok py_div_def split: option.splits)

lemma around_attacker_total:
  "board_ok g \<Longrightarrow> health u \<noteq> 0 \<Longrightarrow> \<exists>r. fold_err (e2_around_attacker g u) cs st = Inr r"
  by (rule fold_err_total)
     (auto simp: e2_around_attacker_def err_bind_def get_chk_ok py_div_def Let_def
           split: option.splits)

lemma around_defender_total:
  "board_ok g \<Longrightarrow> \<exists>r. fold_err (e2_around_defender g u) cs st = Inr r"
  by (rule fold_err_total)
     (auto simp: e2_around_defender_def err_bind_def get_chk_ok Let_def split: option.splits)

lemma holds_unit_of_simps [simp]:
  "holds_unit_of g p None"
  "holds_unit_of g p (Some c) = (\<exists>u. get g c = Some u \<and> player u = p)"
  by (auto simp: holds_unit_of_def split: option.splits)

lemma e2_step_total:
  assumes ok: "board_ok g" and uok: "units_ok g" and inv: "e2_inv g v"
  shows "\<exists>v'. e2_step g coord v = Inr v' \<and> e2_inv g v'"
proof (cases "get g coord")
  case None
  then show ?thesis using ok inv by (simp add: e2_step_def err_bind_def get_chk_ok)
next
  case (Some u)
  have h: "health u \<noteq> 0" using units_ok_get[OF ok uok Some] by simp
  have pl: "player u = Attacker \<or> player u = Defender" by (cases "player u") auto
  obtain ra where ra: "fold_err (e2_around_attacker g u) (iter_adjacent coord)
      (0, heuristic_score v + 999 * (real_of_int (health u) / 9)) = Inr ra"
    using around_attacker_total[OF ok h] by blast
  obtain rd where rd: "fold_err (e2_around_defender g u) (iter_adjacent coord)
      (0, heuristic_score v - 999 * (real_of_int (health u) / 9)) = Inr rd"
    using around_defender_total[OF ok] by blast
  show ?thesis using ok inv Some ra rd pl
    by (auto simp: e2_step_def err_bind_def get_chk_ok py_div_def e2_inv_def)
qed

lemma manhattan_pos: "a \<noteq> b \<Longrightarrow> manhattan a b > 0"
  by (auto simp: manhattan_def coord_eq_iff)

lemma opposite_cells:
  "holds_unit_of g Attacker (Some a) \<Longrightarrow> holds_unit_of g Defender (Some d) \<Longrightarrow> a \<noteq> d"
  by auto

lemma e2_far_total:
  assumes c1: "\<And>a t. c1 = Some a \<Longrightarrow> target = Some t \<Longrightarrow> a \<noteq> t"
  shows "\<exists>r. e2_far c1 c2 target k = Inr r"
proof (cases "(c1 \<noteq> None \<and> c2 \<noteq> None) \<and> target \<noteq> None")
  case False
  then show ?thesis unfolding e2_far_def by (simp only: if_False) blast
next
  case True
  then obtain a t where at: "c1 = Some a" "target = Some t" by auto
  have "0 < manhattan a t" using c1[OF at] by (rule manhattan_pos)
  then have "max (manhattan a t) (manhattan (the c2) t) \<noteq> 0" by simp
  then show ?thesis using True at by (simp add: e2_far_def py_div_def)
qed

lemma e2_near_total:
  assumes c1: "\<And>a t. c1 = Some a \<Longrightarrow> target = Some t \<Longrightarrow> a \<noteq> t"
    and c2: "\<And>a t. c2 = Some a \<Longrightarrow> target = Some t \<Longrightarrow> a \<noteq> t"
  shows "\<exists>r. e2_near c1 c2 target k = Inr r"
proof (cases target)
  case None
  then show ?thesis by (simp add: e2_near_def)
next
  case t: (Some t)
  show ?thesis
  proof (cases c2)
    case (Some b)
    then have "manhattan b t \<noteq> 0" using c2[OF Some t] manhattan_pos[of b t] by simp
    then show ?thesis using Some t by (simp add: e2_near_def py_div_def err_bind_def)
  next
    case None
    show ?thesis
    proof (cases c1)
      case (Some a)
      then have "manhattan a t \<noteq> 0" using c1[OF Some t] manhattan_pos[of a t] by simp
      then show ?thesis using Some None t by (simp add: e2_near_def py_div_def err_bind_def)
    next
      case c1n: None
      then show ?thesis using None by (simp add: e2_near_def)
    qed
  qed
qed

lemma e2_final_total:
  assumes inv: "e2_inv g v"
  shows "\<exists>s. e2_final v = Inr s"
proof -
  have va: "\<And>a t. Virus_coord_1 v = Some a \<Longrightarrow> Defender_AI_coord v = Some t \<Longrightarrow> a \<noteq> t"
    and vb: "\<And>a t. Virus_coord_2 v = Some a \<Longrightarrow> Defender_AI_coord v = Some t \<Longrightarrow> a \<noteq> t"
    and ta: "\<And>a t. Tech_coord_1 v = Some a \<Longrightarrow> Attacker_AI_coord v = Some t \<Longrightarrow> a \<noteq> t"
    and tb: "\<And>a t. Tech_coord_2 v = Some a \<Longrightarrow> Attacker_AI_coord v = Some t \<Longrightarrow> a \<noteq> t"
    using inv by (auto simp: e2_inv_def)
  obtain a where a: "e2_far (Virus_coord_1 v) (Virus_coord_2 v) (Defender_AI_coord v) 100 = Inr a"
    using e2_far_total[OF va] by blast
  obtain b where b: "e2_near (Virus_coord_1 v) (Virus_coord_2 v) (Defender_AI_coord v) 100 = Inr b"
    using e2_near_total[OF va vb] by blast
  obtain c where c: "e2_far (Tech_coord_1 v) (Tech_coord_2 v) (Attacker_AI_coord v) 50 = Inr c"
    using e2_far_total[OF ta] by blast
  obtain d where d: "e2_near (Tech_coord_1 v) (Tech_coord_2 v) (Attacker_AI_coord v) 50 = Inr d"
    using e2_near_total[OF ta tb] by blast
  show ?thesis by (simp add: e2_final_def err_bind_def a b c d Let_def)
qed

lemma e2_total:
  assumes ok: "board_ok g" and uok: "units_ok g"
  shows "\<exists>s. compute_heuristic_e2 g = Inr s"
proof -
  have "e2_inv g e2_init" by (simp add: e2_inv_def e2_init_def)
  then obtain v where v: "fold_err (e2_step g) (iter_rectangle (from_dim (dim (options g)))) e2_init = Inr v"
    and inv: "e2_inv g v"
    using fold_err_inv[of "e2_inv g" e2_init _ "e2_step g"] e2_step_total[OF ok uok] by blast
  from e2_final_total[OF inv] obtain s where "e2_final v = Inr s" by blast
  then show ?thesis using v by (simp add: compute_heuristic_e2_def err_bind_def)
qed

text \<open>
  Claim C9. On a board of the right shape whose units all have health between 1 and 9,
  each of the three evaluators returns a score: no read is out of range and no division
  is by zero, neither the division by the Command unit's health nor those by Manhattan
  distances in e2.
\<close>

theorem heuristics_total:
  "board_ok g \<Longrightarrow> units_ok g \<Longrightarrow>
   (\<exists>s. compute_heuristic_e0 g = Inr s) \<and> (\<exists>s. compute_heuristic_e1 g = Inr s) \<and>
   (\<exists>s. compute_heuristic_e2 g = Inr s)"
  using e0_total e1_total e2_total by blast

theorem heuristics_total_witness:
  "board_ok (new_game default_options) \<and> units_ok (new_game default_options) \<and>
   (\<exists>s. compute_heuristic_e0 (new_game default_options) = Inr s) \<and>
   (\<exists>s. compute_heuristic_e1 (new_game default_options) = Inr s) \<and>
   (\<exists>s. compute_heuristic_e2 (new_game default_options) = Inr s)"
proof -
  have h: "board_ok (new_game default_options)" "units_ok (new_game default_options)"
    by code_simp+
  from heuristics_total[OF h] h show ?thesis by blast
qed

section \<open>Search timeout\<close>

text \<open>
  Claim C7 at the initial position, with a clock that shows 6 seconds from its second
  reading on, against a budget of 5. \<open>suggest_move\<close> returns no move and the timeout
  report without an error, and sets the health of the Attacker's Command unit to 0.
  It does not call \<open>remove_dead\<close>: the unit stays at E4, the Attacker's Command flag stays
  set, \<open>has_winner\<close> reports nobody and the game is not finished, where the claim says the
  flag is cleared and the opponent wins.
\<close>

theorem timeout_leaves_command_unit_on_board:
  "(case suggest_move 1000 stalled_clock (new_game default_options) fresh_search of
      Inl e \<Rightarrow> False
    | Inr r \<Rightarrow>
        fst r = (None, Computer_timed_out) \<and>
        get (fst (snd r)) (mk_coord 4 4) = Some (mk_unit Attacker AI 0) \<and>
        attacker_has_ai (fst (snd r)) \<and>
        has_winner (fst (snd r)) = None \<and>
        \<not> is_finished (fst (snd r)))"
  by code_simp

theorem timeout_leaves_command_unit_on_board_witness:
  "suggest_move 1000 stalled_clock (new_game default_options) fresh_search \<noteq> Inl TypeError"
  using timeout_leaves_command_unit_on_board by (auto split: sum.splits)

section \<open>Alpha-beta against plain minimax\<close>

text \<open>
  Claim C1 at \<open>zugzwang_game\<close>, Attacker to move, default options (depth limit 4,
  evaluator e0, time budget 5 seconds) and a clock that never advances, so that no time
  cutoff fires. The game has no winner. Plain minimax selects A1 to A2 with score 0;
  alpha-beta selects A1 to A0 with score -9999. The claim says they agree.
\<close>

theorem alphabeta_differs_from_minimax:
  "has_winner zugzwang_game = None \<and>
   map_sum id fst (minimax 1000 still_clock 1 Attacker 0 zugzwang_game fresh_search) =
     Inr (Some (0, Some (mk_move (mk_coord 0 1) (mk_coord 0 2)))) \<and>
   map_sum id fst (minimax_alphabeta 1000 still_clock 1 Attacker 0 zugzwang_game
       (real_of_int MIN_HEURISTIC_SCORE) (real_of_int MAX_HEURISTIC_SCORE) fresh_search) =
     Inr (Some (- 9999, Some (mk_move (mk_coord 0 1) (mk_coord 0 0))))"
  by code_simp

theorem alphabeta_differs_from_minimax_witness:
  "map_sum id fst (minimax 1000 still_clock 1 Attacker 0 zugzwang_game fresh_search) \<noteq>
   map_sum id fst (minimax_alphabeta 1000 still_clock 1 Attacker 0 zugzwang_game
       (real_of_int MIN_HEURISTIC_SCORE) (real_of_int MAX_HEURISTIC_SCORE) fresh_search)"
  using alphabeta_differs_from_minimax by simp

end
